theory Spec2Isabelle
  imports Complex_Main "HOL-Library.AList"
begin

section \<open>The scoring contract of \<^verbatim>\<open>xblock/scorable.py\<close>\<close>

text \<open>
  The module defines the named tuple \<^verbatim>\<open>Score\<close> and the class
  \<^verbatim>\<open>ScorableXBlockMixin\<close>, whose method \<^verbatim>\<open>rescore\<close> drives four methods that
  a concrete block supplies (\<^verbatim>\<open>allows_rescore\<close>, \<^verbatim>\<open>get_score\<close>,
  \<^verbatim>\<open>set_score\<close>, \<^verbatim>\<open>calculate_score\<close>) and reports to the host runtime through
  \<^verbatim>\<open>runtime.publish\<close>.

  The embedding keeps the Python names; the leading underscore of the private
  methods is dropped (\<^verbatim>\<open>_publish_grade\<close> is \<open>publish_grade\<close>, and so on).
\<close>

subsection \<open>Values\<close>

text \<open>
  \<^verbatim>\<open>Score = namedtuple('Score', ['earned', 'total'])\<close>. The two fields are Python
  floats; the module never does arithmetic on them, it only compares them, so they are
  modelled as reals (finite floats; a NaN field is outside the model).
\<close>

record Score =
  earned :: real
  total :: real

text \<open>
  The values that occur in the dictionaries handed to \<^verbatim>\<open>runtime.publish\<close>. A
  dictionary is an association list with distinct keys, in insertion order (the order
  of a Python 3 dictionary; Python 2 leaves the order open, and equality of
  dictionaries does not look at it).
\<close>

datatype pyval =
    VStr string
  | VBool bool
  | VNum real
  | VDict "(string \<times> pyval) list"

type_synonym dict = "(string \<times> pyval) list"

text \<open>
  \<^verbatim>\<open>d.update(other)\<close>: every item of \<open>other\<close>, in order, is stored into \<open>d\<close>; a key
  that \<open>d\<close> already has keeps its position and takes the new value.
\<close>

definition dict_update :: "dict \<Rightarrow> dict \<Rightarrow> dict" where
  "dict_update d other = foldl (\<lambda>acc (k, v). AList.update k v acc) d other"

text \<open>\<^verbatim>\<open>score._asdict()\<close> on a named tuple.\<close>

definition Score_asdict :: "Score \<Rightarrow> dict" where
  "Score_asdict s = [(''earned'', VNum (earned s)), (''total'', VNum (total s))]"

subsection \<open>Exceptions\<close>

text \<open>
  The exceptions that the module raises itself, those that Python raises inside it, and
  whatever a block's own methods raise. \<open>NonException\<close> stands for the instances of
  \<^verbatim>\<open>BaseException\<close> that are not instances of \<^verbatim>\<open>Exception\<close>
  (\<^verbatim>\<open>SystemExit\<close>, \<^verbatim>\<open>KeyboardInterrupt\<close>, \<^verbatim>\<open>GeneratorExit\<close>), which
  \<^verbatim>\<open>except Exception\<close> lets through. \<open>AttributeError\<close> carries the name of the
  attribute that was looked up on \<^verbatim>\<open>None\<close>.
\<close>

datatype exn =
    TypeError string
  | ValueError string
  | NotImplementedError
  | AttributeError string
  | OtherException string
  | NonException string

fun isinstance_Exception :: "exn \<Rightarrow> bool" where
  "isinstance_Exception (NonException _) = False"
| "isinstance_Exception _ = True"

subsection \<open>Comparing scores\<close>

text \<open>
  \<^verbatim>\<open>new_score > original_score\<close> compares two tuples: Python looks for the first
  position where the items differ and compares the items there; tuples of the same
  length with no such position are equal, hence not greater.
\<close>

definition Score_gt :: "Score \<Rightarrow> Score \<Rightarrow> bool" where
  "Score_gt a b =
     (if earned a \<noteq> earned b then earned a > earned b
      else if total a \<noteq> total b then total a > total b
      else False)"

text \<open>
  The lexicographic order on (earned, total) in the words of the specification: earned
  first, then total.
\<close>

definition lex_greater :: "Score \<Rightarrow> Score \<Rightarrow> bool" where
  "lex_greater a b \<longleftrightarrow>
     earned a > earned b \<or> (earned a = earned b \<and> total a > total b)"

text \<open>
  The module runs on Python 2 and on Python 3 (it imports \<^verbatim>\<open>six\<close>). The two differ
  where \<^verbatim>\<open>calculate_score\<close> has returned \<^verbatim>\<open>None\<close>: Python 2 orders \<^verbatim>\<open>None\<close>
  below every other object, Python 3 raises \<^verbatim>\<open>TypeError\<close>. The right operand is the
  original score, which \<^verbatim>\<open>rescore\<close> has already found not to be \<^verbatim>\<open>None\<close>.
\<close>

datatype interpreter = Python2 | Python3

fun py_gt :: "interpreter \<Rightarrow> Score option \<Rightarrow> Score \<Rightarrow> exn + bool" where
  "py_gt _ (Some a) b = Inr (Score_gt a b)"
| "py_gt Python2 None b = Inr False"
| "py_gt Python3 None b =
     Inl (TypeError ''> not supported between instances of NoneType and Score'')"

subsection \<open>Blocks, the host runtime and the record of calls\<close>

text \<open>
  A block class is the record of its methods over the block's own state \<open>'s\<close>.
  Following the docstrings, \<^verbatim>\<open>allows_rescore\<close>, \<^verbatim>\<open>get_score\<close> (``must not calculate
  a new score'') and \<^verbatim>\<open>calculate_score\<close> (``must not update any values on the
  block'') read the state; \<^verbatim>\<open>set_score\<close> changes it. Each of the last three may
  raise. \<open>location\<close> is the attribute that \<^verbatim>\<open>_base_event_info\<close> reads, already
  as text (\<^verbatim>\<open>six.text_type\<close> of it).
\<close>

record 's block_class =
  allows_rescore :: "'s \<Rightarrow> bool"
  get_score :: "'s \<Rightarrow> exn + Score option"
  set_score :: "Score option \<Rightarrow> 's \<Rightarrow> exn + 's"
  calculate_score :: "'s \<Rightarrow> exn + Score option"
  location :: "'s \<Rightarrow> string"

text \<open>
  The methods as \<^verbatim>\<open>ScorableXBlockMixin\<close> itself defines them: \<^verbatim>\<open>allows_rescore\<close>
  returns \<^verbatim>\<open>True\<close>, \<^verbatim>\<open>get_score\<close> and \<^verbatim>\<open>set_score\<close> raise
  \<^verbatim>\<open>NotImplementedError\<close>, and the body of \<^verbatim>\<open>calculate_score\<close> is its docstring
  alone, so it returns \<^verbatim>\<open>None\<close>. The mixin does not define \<^verbatim>\<open>location\<close>; it is
  a parameter.
\<close>

definition ScorableXBlockMixin :: "('s \<Rightarrow> string) \<Rightarrow> 's block_class" where
  "ScorableXBlockMixin loc =
     \<lparr> allows_rescore = (\<lambda>_. True),
       get_score = (\<lambda>_. Inl NotImplementedError),
       set_score = (\<lambda>_ _. Inl NotImplementedError),
       calculate_score = (\<lambda>_. Inr None),
       location = loc \<rparr>"

text \<open>
  What can be observed of a call: the calls of the block's four methods and the calls of
  \<^verbatim>\<open>runtime.publish(name, payload)\<close>, in order.
\<close>

datatype call =
    Allows_rescore
  | Get_score
  | Calculate_score
  | Set_score "Score option"
  | Publish string dict

record 's world =
  block :: 's
  trace :: "call list"

definition record_call :: "call \<Rightarrow> 's world \<Rightarrow> 's world" where
  "record_call c w = w\<lparr>trace := trace w @ [c]\<rparr>"

text \<open>
  The host runtime is not part of the module. \<^verbatim>\<open>runtime.publish\<close> is taken to
  accept every event and return (the recorded call is its whole effect), and
  \<^verbatim>\<open>runtime.service(self, 'i18n').ugettext\<close> is the translation function \<open>ugettext\<close>
  of the host.
\<close>

record host =
  ugettext :: "string \<Rightarrow> string"

definition runtime_publish :: "string \<Rightarrow> dict \<Rightarrow> 's world \<Rightarrow> 's world" where
  "runtime_publish name payload w = record_call (Publish name payload) w"

definition call_allows_rescore :: "'s block_class \<Rightarrow> 's world \<Rightarrow> bool \<times> 's world" where
  "call_allows_rescore cls w = (allows_rescore cls (block w), record_call Allows_rescore w)"

definition call_get_score ::
  "'s block_class \<Rightarrow> 's world \<Rightarrow> (exn + Score option) \<times> 's world" where
  "call_get_score cls w = (get_score cls (block w), record_call Get_score w)"

definition call_calculate_score ::
  "'s block_class \<Rightarrow> 's world \<Rightarrow> (exn + Score option) \<times> 's world" where
  "call_calculate_score cls w = (calculate_score cls (block w), record_call Calculate_score w)"

definition call_set_score ::
  "'s block_class \<Rightarrow> Score option \<Rightarrow> 's world \<Rightarrow> (exn + unit) \<times> 's world" where
  "call_set_score cls score w =
     (case set_score cls score (block w) of
        Inl e \<Rightarrow> (Inl e, record_call (Set_score score) w)
      | Inr b \<Rightarrow> (Inr (), (record_call (Set_score score) w)\<lparr>block := b\<rparr>))"

subsection \<open>The methods of the mixin\<close>

text \<open>\<^verbatim>\<open>_base_event_info\<close>: the dictionary that belongs on every logged event.\<close>

definition base_event_info :: "'s block_class \<Rightarrow> 's world \<Rightarrow> dict" where
  "base_event_info cls w = [(''usage_key'', VStr (location cls (block w)))]"

text \<open>
  \<^verbatim>\<open>_publish_scoring_event(name, data)\<close>: a new dictionary \<open>logged\<close> takes the items
  of \<open>data\<close>, then those of the base information, and is published.
\<close>

definition scoring_event_payload :: "'s block_class \<Rightarrow> dict \<Rightarrow> 's world \<Rightarrow> dict" where
  "scoring_event_payload cls data w =
     (let logged = [];
          logged = dict_update logged data;
          logged = dict_update logged (base_event_info cls w)
      in logged)"

definition publish_scoring_event ::
  "'s block_class \<Rightarrow> string \<Rightarrow> dict \<Rightarrow> 's world \<Rightarrow> 's world" where
  "publish_scoring_event cls name data w =
     runtime_publish name (scoring_event_payload cls data w) w"

text \<open>
  \<^verbatim>\<open>_publish_grade(only_if_higher=None)\<close> reads the score back with
  \<^verbatim>\<open>get_score\<close>; \<^verbatim>\<open>score.earned\<close> on \<^verbatim>\<open>None\<close> raises \<^verbatim>\<open>AttributeError\<close>.
\<close>

definition grade_dict :: "Score \<Rightarrow> bool option \<Rightarrow> dict" where
  "grade_dict score only_if_higher =
     (let d = [(''value'', VNum (earned score)), (''max_value'', VNum (total score))]
      in case only_if_higher of
           None \<Rightarrow> d
         | Some b \<Rightarrow> AList.update ''only_if_higher'' (VBool b) d)"

definition publish_grade ::
  "'s block_class \<Rightarrow> bool option \<Rightarrow> 's world \<Rightarrow> (exn + unit) \<times> 's world" where
  "publish_grade cls only_if_higher w =
     (case call_get_score cls w of
        (Inl e, w1) \<Rightarrow> (Inl e, w1)
      | (Inr None, w1) \<Rightarrow> (Inl (AttributeError ''earned''), w1)
      | (Inr (Some score), w1) \<Rightarrow>
          (Inr (), runtime_publish ''grade'' (grade_dict score only_if_higher) w1))"

text \<open>\<^verbatim>\<open>new_score._asdict()\<close>, where \<^verbatim>\<open>new_score\<close> may be \<^verbatim>\<open>None\<close>.\<close>

definition asdict :: "Score option \<Rightarrow> exn + dict" where
  "asdict s = (case s of None \<Rightarrow> Inl (AttributeError ''_asdict'') | Some sc \<Rightarrow> Inr (Score_asdict sc))"

text \<open>
  The dictionary literal of a \<^verbatim>\<open>rescore_result\<close> event; its items are evaluated in
  order, so \<^verbatim>\<open>new_score._asdict()\<close> raises before anything is published.
\<close>

definition result_data :: "string \<Rightarrow> Score \<Rightarrow> Score option \<Rightarrow> exn + dict" where
  "result_data result original_score new_score =
     (case asdict new_score of
        Inl e \<Rightarrow> Inl e
      | Inr nd \<Rightarrow>
          Inr [(''result'', VStr result),
               (''original_score'', VDict (Score_asdict original_score)),
               (''new_score'', VDict nd)])"

text \<open>
  \<^verbatim>\<open>rescore(only_if_higher)\<close>. The result is what the call raises (\<open>Inl\<close>) or
  returns (\<open>Inr\<close>), with the world it leaves behind.
\<close>

definition rescore ::
  "interpreter \<Rightarrow> host \<Rightarrow> 's block_class \<Rightarrow> bool \<Rightarrow> 's world \<Rightarrow> (exn + bool) \<times> 's world" where
  "rescore py h cls only_if_higher w0 =
     (let gettext = ugettext h;
          (allowed, w1) = call_allows_rescore cls w0
      in if \<not> allowed then
           (let w2 = publish_scoring_event cls ''rescore_failure''
                       [(''failure'', VStr ''unsupported'')] w1
            in (Inl (TypeError (gettext ''Problem does not support rescoring'')), w2))
         else
           (case call_get_score cls w1 of
              (Inl e, w2) \<Rightarrow> (Inl e, w2)
            | (Inr None, w2) \<Rightarrow>
                (let w3 = publish_scoring_event cls ''rescore_failure''
                            [(''failure'', VStr ''unanswered'')] w2
                 in (Inl (ValueError
                       (gettext ''Problem must be answered before it can be rescored.'')), w3))
            | (Inr (Some original_score), w2) \<Rightarrow>
                (case call_calculate_score cls w2 of
                   (Inl e, w3) \<Rightarrow>
                     if isinstance_Exception e then
                       (Inr False, publish_scoring_event cls ''rescore_failure''
                                     [(''failure'', VStr ''calculation error'')] w3)
                     else (Inl e, w3)
                 | (Inr new_score, w3) \<Rightarrow>
                     (case (if \<not> only_if_higher then Inr True
                            else py_gt py new_score original_score) of
                        Inl e \<Rightarrow> (Inl e, w3)
                      | Inr True \<Rightarrow>
                          (case call_set_score cls new_score w3 of
                             (Inl e, w4) \<Rightarrow> (Inl e, w4)
                           | (Inr _, w4) \<Rightarrow>
                               (case publish_grade cls (Some only_if_higher) w4 of
                                  (Inl e, w5) \<Rightarrow> (Inl e, w5)
                                | (Inr _, w5) \<Rightarrow>
                                    (case result_data ''score updated''
                                            original_score new_score of
                                       Inl e \<Rightarrow> (Inl e, w5)
                                     | Inr data \<Rightarrow>
                                         (Inr True,
                                          publish_scoring_event cls
                                            ''rescore_result'' data w5))))
                      | Inr False \<Rightarrow>
                          (case result_data ''score not changed''
                                  original_score new_score of
                             Inl e \<Rightarrow> (Inl e, w3)
                           | Inr data \<Rightarrow>
                               (Inr False,
                                publish_scoring_event cls
                                  ''rescore_result'' data w3))))))"


subsection \<open>Observing a call\<close>

text \<open>
  \<^verbatim>\<open>rescore\<close> only appends to the record of calls; \<open>calls_made w w'\<close> is what a call
  that started in \<open>w\<close> and ended in \<open>w'\<close> has added.
\<close>

definition calls_made :: "'s world \<Rightarrow> 's world \<Rightarrow> call list" where
  "calls_made w w' = drop (length (trace w)) (trace w')"

definition set_score_calls :: "call list \<Rightarrow> Score option list" where
  "set_score_calls tr = [s. Set_score s \<leftarrow> tr]"

definition published :: "call list \<Rightarrow> (string \<times> dict) list" where
  "published tr = [(n, p). Publish n p \<leftarrow> tr]"

text \<open>
  The events of \<^verbatim>\<open>_publish_scoring_event\<close> are the audit events; the event of
  \<^verbatim>\<open>_publish_grade\<close> is the grade record.
\<close>

definition is_audit_event :: "string \<times> dict \<Rightarrow> bool" where
  "is_audit_event ev \<longleftrightarrow> fst ev = ''rescore_failure'' \<or> fst ev = ''rescore_result''"

definition is_grade_record :: "string \<times> dict \<Rightarrow> bool" where
  "is_grade_record ev \<longleftrightarrow> fst ev = ''grade''"

definition audit_events :: "call list \<Rightarrow> (string \<times> dict) list" where
  "audit_events tr = filter is_audit_event (published tr)"

definition grade_records :: "call list \<Rightarrow> (string \<times> dict) list" where
  "grade_records tr = filter is_grade_record (published tr)"

text \<open>A \<^verbatim>\<open>rescore_failure\<close> event with the given tag.\<close>

definition is_failure_event :: "string \<Rightarrow> string \<times> dict \<Rightarrow> bool" where
  "is_failure_event tag ev \<longleftrightarrow>
     fst ev = ''rescore_failure'' \<and> map_of (snd ev) ''failure'' = Some (VStr tag)"

subsection \<open>The block of the test suite\<close>

text \<open>
  \<^verbatim>\<open>StubScorableBlock\<close> of \<^verbatim>\<open>test_scorable.py\<close>: the score is the attribute
  \<^verbatim>\<open>result\<close>, \<^verbatim>\<open>allows_rescore\<close> returns the attribute \<^verbatim>\<open>_allows_rescore\<close>,
  and \<^verbatim>\<open>calculate_score\<close> always returns \<^verbatim>\<open>Score(earned=1.6, total=2.0)\<close>.
\<close>

record stub_state =
  result :: "Score option"
  stub_allows_rescore :: bool

definition StubScorableBlock :: "stub_state block_class" where
  "StubScorableBlock =
     \<lparr> allows_rescore = stub_allows_rescore,
       get_score = (\<lambda>s. Inr (result s)),
       set_score = (\<lambda>score s. Inr (s\<lparr>result := score\<rparr>)),
       calculate_score = (\<lambda>_. Inr (Some \<lparr>earned = 1.6, total = 2.0\<rparr>)),
       location = (\<lambda>_. ''Here'') \<rparr>"

text \<open>\<^verbatim>\<open>StubScorableBlock(initial)\<close>, before any call.\<close>

definition StubScorableBlock_init :: "Score option \<Rightarrow> stub_state world" where
  "StubScorableBlock_init initial =
     \<lparr> block = \<lparr>result = initial, stub_allows_rescore = True\<rparr>, trace = [] \<rparr>"

text \<open>A host whose translation service returns every message as it is.\<close>

definition plain_host :: host where
  "plain_host = \<lparr> ugettext = (\<lambda>msg. msg) \<rparr>"

subsection \<open>Dictionaries as objects\<close>

text \<open>
  Python dictionaries are mutable objects that are passed by reference. To see what
  \<^verbatim>\<open>_publish_scoring_event\<close> does to its argument, the dictionaries live in a heap, a
  reference is an index into it, and a new dictionary is put at the end. The runtime is
  handed the name and the reference of \<open>logged\<close>.
\<close>

type_synonym ref = nat

record store =
  heap :: "dict list"
  delivered :: "(string \<times> ref) list"

definition new_dict :: "dict \<Rightarrow> store \<Rightarrow> ref \<times> store" where
  "new_dict d s = (length (heap s), s\<lparr>heap := heap s @ [d]\<rparr>)"

text \<open>\<^verbatim>\<open>target.update(other)\<close> changes the object \<open>target\<close> and reads \<open>other\<close>.\<close>

definition update_in_place :: "ref \<Rightarrow> ref \<Rightarrow> store \<Rightarrow> store" where
  "update_in_place target other s =
     s\<lparr>heap := (heap s)[target := dict_update (heap s ! target) (heap s ! other)]\<rparr>"

text \<open>
  \<^verbatim>\<open>_publish_scoring_event(name, data)\<close> with \<open>data\<close> a reference:
  \<^verbatim>\<open>logged = {}\<close>, \<^verbatim>\<open>logged.update(data)\<close>,
  \<^verbatim>\<open>logged.update(self._base_event_info())\<close> (the dictionary display in
  \<^verbatim>\<open>_base_event_info\<close> makes a new object), \<^verbatim>\<open>self.runtime.publish(name, logged)\<close>.
\<close>

definition publish_scoring_event_store ::
  "'s block_class \<Rightarrow> 's world \<Rightarrow> string \<Rightarrow> ref \<Rightarrow> store \<Rightarrow> store" where
  "publish_scoring_event_store cls w name data s0 =
     (let (logged, s1) = new_dict [] s0;
          s2 = update_in_place logged data s1;
          (base, s3) = new_dict (base_event_info cls w) s2;
          s4 = update_in_place logged base s3
      in s4\<lparr>delivered := delivered s4 @ [(name, logged)]\<rparr>)"

section \<open>Properties\<close>

subsection \<open>Auxiliary facts\<close>

lemmas call_defs =
  call_allows_rescore_def call_get_score_def call_calculate_score_def call_set_score_def
  runtime_publish_def record_call_def

lemmas observer_defs =
  calls_made_def set_score_calls_def published_def audit_events_def grade_records_def
  is_audit_event_def is_grade_record_def

lemmas stub_defs = StubScorableBlock_def StubScorableBlock_init_def plain_host_def

lemmas rescore_eval =
  rescore_def call_defs publish_scoring_event_def publish_grade_def result_data_def
  asdict_def scoring_event_payload_def dict_update_def base_event_info_def grade_dict_def
  Score_asdict_def

text \<open>The comparison of the code is the lexicographic order of the specification.\<close>

lemma Score_gt_lex_greater: "Score_gt a b = lex_greater a b"
  by (auto simp: Score_gt_def lex_greater_def)

text \<open>Merging dictionaries, seen as maps: the dictionary merged last wins.\<close>

lemma map_of_dict_update:
  "distinct (map fst other) \<Longrightarrow> map_of (dict_update d other) = map_of d ++ map_of other"
  unfolding dict_update_def
proof (induction other arbitrary: d)
  case Nil
  then show ?case by simp
next
  case (Cons item other)
  obtain k v where item: "item = (k, v)"
    by (cases item)
  from Cons.prems item have fresh: "k \<notin> dom (map_of other)" and rest: "distinct (map fst other)"
    by (simp_all add: dom_map_of_conv_image_fst)
  let ?store = "\<lambda>acc (k, v). AList.update k v acc"
  have step: "foldl ?store d (item # other) = foldl ?store (AList.update k v d) other"
    by (simp add: item)
  have "map_of (foldl ?store (AList.update k v d) other) =
      (map_of d)(k \<mapsto> v) ++ map_of other"
    by (simp only: Cons.IH [OF rest] update_conv')
  also have "\<dots> = (map_of d ++ map_of other)(k \<mapsto> v)"
    using fresh by (rule map_add_upd_left)
  also have "\<dots> = map_of d ++ map_of (item # other)"
    by (simp only: item map_of.simps fst_conv snd_conv map_add_upd)
  finally show ?case
    by (simp only: step)
qed

text \<open>The payloads of the events that \<^verbatim>\<open>rescore\<close> publishes.\<close>

lemma failure_payload:
  "scoring_event_payload cls [(''failure'', VStr tag)] w =
     [(''failure'', VStr tag), (''usage_key'', VStr (location cls (block w)))]"
  by (simp add: scoring_event_payload_def dict_update_def base_event_info_def)

lemma result_payload:
  "scoring_event_payload cls
       [(''result'', r), (''original_score'', a), (''new_score'', b)] w =
     [(''result'', r), (''original_score'', a), (''new_score'', b),
      (''usage_key'', VStr (location cls (block w)))]"
  by (simp add: scoring_event_payload_def dict_update_def base_event_info_def)

subsection \<open>The paths through \<^verbatim>\<open>rescore\<close>\<close>

text \<open>
  One lemma for each way a call can go, with the outcome and the world it leaves.
  First the five paths on which \<^verbatim>\<open>rescore\<close> itself raises or returns.
\<close>

lemma rescore_unsupported:
  assumes "\<not> allows_rescore cls (block w)"
  shows "rescore py h cls only_if_higher w =
    (Inl (TypeError (ugettext h ''Problem does not support rescoring'')),
     w\<lparr>trace := trace w @
        [Allows_rescore,
         Publish ''rescore_failure''
           [(''failure'', VStr ''unsupported''),
            (''usage_key'', VStr (location cls (block w)))]]\<rparr>)"
  using assms
  by (simp add: rescore_def call_defs publish_scoring_event_def failure_payload)

lemma rescore_unanswered:
  assumes "allows_rescore cls (block w)"
    and "get_score cls (block w) = Inr None"
  shows "rescore py h cls only_if_higher w =
    (Inl (ValueError (ugettext h ''Problem must be answered before it can be rescored.'')),
     w\<lparr>trace := trace w @
        [Allows_rescore, Get_score,
         Publish ''rescore_failure''
           [(''failure'', VStr ''unanswered''),
            (''usage_key'', VStr (location cls (block w)))]]\<rparr>)"
  using assms
  by (simp add: rescore_def call_defs publish_scoring_event_def failure_payload)

lemma rescore_calculation_error:
  assumes "allows_rescore cls (block w)"
    and "get_score cls (block w) = Inr (Some original_score)"
    and "calculate_score cls (block w) = Inl e"
    and "isinstance_Exception e"
  shows "rescore py h cls only_if_higher w =
    (Inr False,
     w\<lparr>trace := trace w @
        [Allows_rescore, Get_score, Calculate_score,
         Publish ''rescore_failure''
           [(''failure'', VStr ''calculation error''),
            (''usage_key'', VStr (location cls (block w)))]]\<rparr>)"
  using assms
  by (simp add: rescore_def call_defs publish_scoring_event_def failure_payload)

lemma rescore_not_changed:
  assumes "allows_rescore cls (block w)"
    and "get_score cls (block w) = Inr (Some original_score)"
    and "calculate_score cls (block w) = Inr (Some new_score)"
    and "only_if_higher"
    and "\<not> Score_gt new_score original_score"
  shows "rescore py h cls only_if_higher w =
    (Inr False,
     w\<lparr>trace := trace w @
        [Allows_rescore, Get_score, Calculate_score,
         Publish ''rescore_result''
           [(''result'', VStr ''score not changed''),
            (''original_score'', VDict (Score_asdict original_score)),
            (''new_score'', VDict (Score_asdict new_score)),
            (''usage_key'', VStr (location cls (block w)))]]\<rparr>)"
  using assms
  by (simp add: rescore_def call_defs publish_scoring_event_def
      result_data_def asdict_def result_payload)

lemma rescore_updated:
  assumes "allows_rescore cls (block w)"
    and "get_score cls (block w) = Inr (Some original_score)"
    and "calculate_score cls (block w) = Inr (Some new_score)"
    and "\<not> only_if_higher \<or> Score_gt new_score original_score"
    and "set_score cls (Some new_score) (block w) = Inr b'"
    and "get_score cls b' = Inr (Some readback)"
  shows "rescore py h cls only_if_higher w =
    (Inr True,
     \<lparr>block = b',
      trace = trace w @
        [Allows_rescore, Get_score, Calculate_score, Set_score (Some new_score), Get_score,
         Publish ''grade'' (grade_dict readback (Some only_if_higher)),
         Publish ''rescore_result''
           [(''result'', VStr ''score updated''),
            (''original_score'', VDict (Score_asdict original_score)),
            (''new_score'', VDict (Score_asdict new_score)),
            (''usage_key'', VStr (location cls b'))]]\<rparr>)"
  using assms
  by (auto simp add: rescore_def call_defs publish_scoring_event_def publish_grade_def
      result_data_def asdict_def result_payload)

text \<open>
  Then the paths on which an exception of the block's own methods, or of Python, ends
  the call. No audit event is published on them.
\<close>

lemma rescore_get_score_raises:
  assumes "allows_rescore cls (block w)"
    and "get_score cls (block w) = Inl e"
  shows "rescore py h cls only_if_higher w =
    (Inl e, w\<lparr>trace := trace w @ [Allows_rescore, Get_score]\<rparr>)"
  using assms by (simp add: rescore_def call_defs)

lemma rescore_calculation_passes_through:
  assumes "allows_rescore cls (block w)"
    and "get_score cls (block w) = Inr (Some original_score)"
    and "calculate_score cls (block w) = Inl e"
    and "\<not> isinstance_Exception e"
  shows "rescore py h cls only_if_higher w =
    (Inl e, w\<lparr>trace := trace w @ [Allows_rescore, Get_score, Calculate_score]\<rparr>)"
  using assms by (simp add: rescore_def call_defs)

lemma rescore_new_score_None:
  assumes "allows_rescore cls (block w)"
    and "get_score cls (block w) = Inr (Some original_score)"
    and "calculate_score cls (block w) = Inr None"
  shows "(\<exists>e. fst (rescore py h cls only_if_higher w) = Inl e) \<and>
    audit_events (calls_made w (snd (rescore py h cls only_if_higher w))) = []"
  using assms
  by (cases py; cases only_if_higher)
     (auto simp add: rescore_def call_defs publish_grade_def result_data_def asdict_def
           observer_defs split: sum.splits option.splits)

lemma rescore_set_score_raises:
  assumes "allows_rescore cls (block w)"
    and "get_score cls (block w) = Inr (Some original_score)"
    and "calculate_score cls (block w) = Inr (Some new_score)"
    and "\<not> only_if_higher \<or> Score_gt new_score original_score"
    and "set_score cls (Some new_score) (block w) = Inl e"
  shows "rescore py h cls only_if_higher w =
    (Inl e,
     w\<lparr>trace := trace w @
        [Allows_rescore, Get_score, Calculate_score, Set_score (Some new_score)]\<rparr>)"
  using assms by (auto simp add: rescore_def call_defs)

lemma rescore_publish_grade_raises:
  assumes "allows_rescore cls (block w)"
    and "get_score cls (block w) = Inr (Some original_score)"
    and "calculate_score cls (block w) = Inr (Some new_score)"
    and "\<not> only_if_higher \<or> Score_gt new_score original_score"
    and "set_score cls (Some new_score) (block w) = Inr b'"
    and "\<And>readback. get_score cls b' \<noteq> Inr (Some readback)"
  shows "(\<exists>e. fst (rescore py h cls only_if_higher w) = Inl e) \<and>
    snd (rescore py h cls only_if_higher w) =
      \<lparr>block = b',
       trace = trace w @
         [Allows_rescore, Get_score, Calculate_score, Set_score (Some new_score),
          Get_score]\<rparr>"
  using assms
  by (auto simp add: rescore_def call_defs publish_grade_def split: sum.splits option.splits)

text \<open>Every call takes one of these paths.\<close>

lemma rescore_path_cases:
  obtains
    (unsupported) "\<not> allows_rescore cls (block w)"
  | (get_score_raises) e where
      "allows_rescore cls (block w)" "get_score cls (block w) = Inl e"
  | (unanswered)
      "allows_rescore cls (block w)" "get_score cls (block w) = Inr None"
  | (calculation_raises) original_score e where
      "allows_rescore cls (block w)" "get_score cls (block w) = Inr (Some original_score)"
      "calculate_score cls (block w) = Inl e"
  | (new_score_None) original_score where
      "allows_rescore cls (block w)" "get_score cls (block w) = Inr (Some original_score)"
      "calculate_score cls (block w) = Inr None"
  | (not_changed) original_score new_score where
      "allows_rescore cls (block w)" "get_score cls (block w) = Inr (Some original_score)"
      "calculate_score cls (block w) = Inr (Some new_score)"
      "only_if_higher" "\<not> Score_gt new_score original_score"
  | (set_score_raises) original_score new_score e where
      "allows_rescore cls (block w)" "get_score cls (block w) = Inr (Some original_score)"
      "calculate_score cls (block w) = Inr (Some new_score)"
      "\<not> only_if_higher \<or> Score_gt new_score original_score"
      "set_score cls (Some new_score) (block w) = Inl e"
  | (publish_grade_raises) original_score new_score b' where
      "allows_rescore cls (block w)" "get_score cls (block w) = Inr (Some original_score)"
      "calculate_score cls (block w) = Inr (Some new_score)"
      "\<not> only_if_higher \<or> Score_gt new_score original_score"
      "set_score cls (Some new_score) (block w) = Inr b'"
      "\<And>readback. get_score cls b' \<noteq> Inr (Some readback)"
  | (updated) original_score new_score b' readback where
      "allows_rescore cls (block w)" "get_score cls (block w) = Inr (Some original_score)"
      "calculate_score cls (block w) = Inr (Some new_score)"
      "\<not> only_if_higher \<or> Score_gt new_score original_score"
      "set_score cls (Some new_score) (block w) = Inr b'"
      "get_score cls b' = Inr (Some readback)"
proof (cases "allows_rescore cls (block w)")
  case False
  then show ?thesis by (rule unsupported)
next
  case allowed: True
  show ?thesis
  proof (cases "get_score cls (block w)")
    case (Inl e)
    with allowed show ?thesis by (rule get_score_raises)
  next
    case (Inr original)
    show ?thesis
    proof (cases original)
      case None
      with allowed Inr show ?thesis by (simp add: unanswered)
    next
      case (Some original_score)
      with Inr have orig: "get_score cls (block w) = Inr (Some original_score)"
        by simp
      show ?thesis
      proof (cases "calculate_score cls (block w)")
        case (Inl e)
        with allowed orig show ?thesis by (rule calculation_raises)
      next
        case calc: (Inr new)
        show ?thesis
        proof (cases new)
          case None
          with allowed orig calc show ?thesis by (simp add: new_score_None)
        next
          case (Some new_score)
          with calc have new: "calculate_score cls (block w) = Inr (Some new_score)"
            by simp
          show ?thesis
          proof (cases "\<not> only_if_higher \<or> Score_gt new_score original_score")
            case False
            with allowed orig new show ?thesis by (simp add: not_changed)
          next
            case decision: True
            show ?thesis
            proof (cases "set_score cls (Some new_score) (block w)")
              case (Inl e)
              with allowed orig new decision show ?thesis by (rule set_score_raises)
            next
              case stored: (Inr b')
              show ?thesis
              proof (cases "\<exists>readback. get_score cls b' = Inr (Some readback)")
                case True
                with allowed orig new decision stored show ?thesis
                  by (blast intro: updated)
              next
                case False
                with allowed orig new decision stored show ?thesis
                  by (blast intro: publish_grade_raises)
              qed
            qed
          qed
        qed
      qed
    qed
  qed
qed

text \<open>
  A \<^verbatim>\<open>rescore_failure\<close> event tagged \<^verbatim>\<open>calculation error\<close> is published on no
  path on which \<^verbatim>\<open>calculate_score\<close> has returned.
\<close>

lemma no_audit_no_failure:
  assumes "audit_events tr = []"
  shows "filter (is_failure_event tag) (published tr) = []"
  using assms
  by (auto simp add: audit_events_def is_audit_event_def is_failure_event_def
      filter_empty_conv)

lemma rescore_calculation_error_only_if_raised:
  assumes "calculate_score cls (block w) = Inr new"
  shows "filter (is_failure_event ''calculation error'')
           (published (calls_made w (snd (rescore py h cls only_if_higher w)))) = []"
proof (cases rule: rescore_path_cases [where cls = cls and w = w
      and only_if_higher = only_if_higher])
  case unsupported
  from rescore_unsupported [OF this, where py = py and h = h
      and only_if_higher = only_if_higher]
  show ?thesis
    by (simp add: observer_defs is_failure_event_def)
next
  case (get_score_raises e)
  from rescore_get_score_raises [OF this, where py = py and h = h
      and only_if_higher = only_if_higher]
  show ?thesis
    by (simp add: observer_defs)
next
  case unanswered
  from rescore_unanswered [OF this, where py = py and h = h
      and only_if_higher = only_if_higher]
  show ?thesis
    by (simp add: observer_defs is_failure_event_def)
next
  case (calculation_raises original_score e)
  with assms show ?thesis by simp
next
  case (new_score_None original_score)
  from rescore_new_score_None [OF this, where py = py and h = h
      and only_if_higher = only_if_higher]
  show ?thesis
    by (intro no_audit_no_failure) simp
next
  case (not_changed original_score new_score)
  from rescore_not_changed [OF this, where py = py and h = h] show ?thesis
    by (simp add: observer_defs is_failure_event_def)
next
  case (set_score_raises original_score new_score e)
  from rescore_set_score_raises [OF this, where py = py and h = h] show ?thesis
    by (simp add: observer_defs)
next
  case (publish_grade_raises original_score new_score b')
  from rescore_publish_grade_raises [OF this, where py = py and h = h] show ?thesis
    by (simp add: observer_defs)
next
  case (updated original_score new_score b' readback)
  from rescore_updated [OF this, where py = py and h = h] show ?thesis
    by (simp add: observer_defs is_failure_event_def grade_dict_def)
qed

subsection \<open>Rescoring only if higher\<close>

text \<open>
  Claim C1. For a block that allows rescoring and has a score, and whose
  \<^verbatim>\<open>calculate_score()\<close> returns a score, \<^verbatim>\<open>rescore(only_if_higher=True)\<close> calls
  \<^verbatim>\<open>set_score(new_score)\<close> exactly when the new score is greater than the original
  one in the lexicographic order on (earned, total), and then returns \<^verbatim>\<open>True\<close>
  (provided that the block's \<^verbatim>\<open>set_score\<close> returns and that its \<^verbatim>\<open>get_score\<close>
  finds a score afterwards: an exception of the block would end the call). Otherwise
  it does not call \<^verbatim>\<open>set_score\<close>, leaves the block as it was and returns
  \<^verbatim>\<open>False\<close>.
\<close>

theorem rescore_only_if_higher:
  assumes allowed: "allows_rescore cls (block w)"
    and orig: "get_score cls (block w) = Inr (Some original_score)"
    and new: "calculate_score cls (block w) = Inr (Some new_score)"
  shows "case rescore py h cls True w of (out, w') \<Rightarrow>
     (lex_greater new_score original_score \<longrightarrow>
        set_score_calls (calls_made w w') = [Some new_score] \<and>
        (set_score cls (Some new_score) (block w) = Inr b' \<and>
         get_score cls b' = Inr (Some readback) \<longrightarrow>
           out = Inr True \<and> block w' = b')) \<and>
     (\<not> lex_greater new_score original_score \<longrightarrow>
        out = Inr False \<and> set_score_calls (calls_made w w') = [] \<and>
        block w' = block w)"
proof (cases "lex_greater new_score original_score")
  case False
  then have "\<not> Score_gt new_score original_score"
    by (simp add: Score_gt_lex_greater)
  from rescore_not_changed [OF allowed orig new _ this, where py = py and h = h] False
  show ?thesis
    by (simp add: observer_defs)
next
  case True
  then have decision: "\<not> True \<or> Score_gt new_score original_score"
    by (simp add: Score_gt_lex_greater)
  show ?thesis
  proof (cases "set_score cls (Some new_score) (block w)")
    case (Inl e)
    from rescore_set_score_raises [OF allowed orig new decision this, where py = py and h = h]
      Inl True
    show ?thesis
      by (simp add: observer_defs)
  next
    case stored: (Inr b'')
    show ?thesis
    proof (cases "\<exists>r. get_score cls b'' = Inr (Some r)")
      case False
      then have "\<And>r. get_score cls b'' \<noteq> Inr (Some r)"
        by simp
      from rescore_publish_grade_raises
        [OF allowed orig new decision stored this, where py = py and h = h]
        stored False True
      show ?thesis
        by (auto simp add: observer_defs split: prod.splits)
    next
      case True
      then obtain r where "get_score cls b'' = Inr (Some r)" ..
      from rescore_updated [OF allowed orig new decision stored this, where py = py and h = h]
        stored \<open>lex_greater new_score original_score\<close>
      show ?thesis
        by (auto simp add: observer_defs)
    qed
  qed
qed

theorem rescore_only_if_higher_witness:
  "(lex_greater \<lparr>earned = 1.6, total = 2.0\<rparr> \<lparr>earned = 0, total = 1\<rparr> \<and>
    (case rescore Python3 plain_host StubScorableBlock True
            (StubScorableBlock_init (Some \<lparr>earned = 0, total = 1\<rparr>)) of
       (out, w') \<Rightarrow>
         out = Inr True \<and>
         set_score_calls (trace w') = [Some \<lparr>earned = 1.6, total = 2.0\<rparr>] \<and>
         result (block w') = Some \<lparr>earned = 1.6, total = 2.0\<rparr>)) \<and>
   (\<not> lex_greater \<lparr>earned = 1.6, total = 2.0\<rparr> \<lparr>earned = 2, total = 2\<rparr> \<and>
    (case rescore Python3 plain_host StubScorableBlock True
            (StubScorableBlock_init (Some \<lparr>earned = 2, total = 2\<rparr>)) of
       (out, w') \<Rightarrow>
         out = Inr False \<and>
         set_score_calls (trace w') = [] \<and>
         result (block w') = Some \<lparr>earned = 2, total = 2\<rparr>))"
  using rescore_only_if_higher
    [where cls = StubScorableBlock and py = Python3 and h = plain_host
       and w = "StubScorableBlock_init (Some \<lparr>earned = 0, total = 1\<rparr>)"
       and original_score = "\<lparr>earned = 0, total = 1\<rparr>"
       and new_score = "\<lparr>earned = 1.6, total = 2.0\<rparr>"
       and b' = "\<lparr>result = Some \<lparr>earned = 1.6, total = 2.0\<rparr>, stub_allows_rescore = True\<rparr>"
       and readback = "\<lparr>earned = 1.6, total = 2.0\<rparr>"]
    rescore_only_if_higher
    [where cls = StubScorableBlock and py = Python3 and h = plain_host
       and w = "StubScorableBlock_init (Some \<lparr>earned = 2, total = 2\<rparr>)"
       and original_score = "\<lparr>earned = 2, total = 2\<rparr>"
       and new_score = "\<lparr>earned = 1.6, total = 2.0\<rparr>"
       and b' = "\<lparr>result = Some \<lparr>earned = 1.6, total = 2.0\<rparr>, stub_allows_rescore = True\<rparr>"
       and readback = "\<lparr>earned = 1.6, total = 2.0\<rparr>"]
  by (simp add: stub_defs calls_made_def lex_greater_def split: prod.splits)

subsection \<open>The payload of an audit event\<close>

text \<open>
  Claim C2, as the code has it. In the event that \<^verbatim>\<open>_publish_scoring_event\<close>
  publishes, the base context takes precedence over the caller's payload:
  \<^verbatim>\<open>usage_key\<close> is the location of the block, also when the payload has that key;
  every other key of the payload is published with the caller's value.
\<close>

theorem publish_scoring_event_merge:
  assumes "distinct (map fst data)"
  shows "\<exists>payload.
     calls_made w (publish_scoring_event cls name data w) = [Publish name payload] \<and>
     map_of payload ''usage_key'' = Some (VStr (location cls (block w))) \<and>
     (\<forall>k. k \<noteq> ''usage_key'' \<longrightarrow> map_of payload k = map_of data k)"
proof -
  have "map_of (scoring_event_payload cls data w) =
      map_of data ++ map_of (base_event_info cls w)"
    using assms
    by (simp add: scoring_event_payload_def map_of_dict_update base_event_info_def)
  then show ?thesis
    by (simp add: publish_scoring_event_def runtime_publish_def record_call_def
        calls_made_def base_event_info_def)
qed

theorem publish_scoring_event_merge_witness:
  "distinct (map fst [(''failure'', VStr ''unsupported''), (''note'', VBool True)]) \<and>
   ''failure'' \<noteq> ''usage_key'' \<and>
   (\<exists>payload.
      trace (publish_scoring_event StubScorableBlock ''rescore_failure''
               [(''failure'', VStr ''unsupported''), (''note'', VBool True)]
               (StubScorableBlock_init None)) =
        [Publish ''rescore_failure'' payload] \<and>
      map_of payload ''usage_key'' = Some (VStr ''Here'') \<and>
      map_of payload ''failure'' = Some (VStr ''unsupported''))"
proof -
  have keys: "distinct (map fst [(''failure'', VStr ''unsupported''), (''note'', VBool True)])"
    by simp
  from publish_scoring_event_merge
    [OF keys, where cls = StubScorableBlock and name = "''rescore_failure''"
       and w = "StubScorableBlock_init None"]
  obtain payload where
    "calls_made (StubScorableBlock_init None)
       (publish_scoring_event StubScorableBlock ''rescore_failure''
          [(''failure'', VStr ''unsupported''), (''note'', VBool True)]
          (StubScorableBlock_init None)) =
       [Publish ''rescore_failure'' payload]"
    and "map_of payload ''usage_key'' =
       Some (VStr (location StubScorableBlock (block (StubScorableBlock_init None))))"
    and "\<forall>k. k \<noteq> ''usage_key'' \<longrightarrow>
       map_of payload k = map_of [(''failure'', VStr ''unsupported''), (''note'', VBool True)] k"
    by blast
  then show ?thesis
    using keys by (auto simp add: calls_made_def stub_defs)
qed

text \<open>
  A payload that has the key \<^verbatim>\<open>usage_key\<close>: the published event carries the
  location of the block in its place.
\<close>

theorem publish_scoring_event_overwrites:
  "map_of [(''usage_key'', VStr ''Elsewhere''), (''failure'', VStr ''unsupported'')]
     ''usage_key'' = Some (VStr ''Elsewhere'') \<and>
   trace (publish_scoring_event StubScorableBlock ''rescore_failure''
            [(''usage_key'', VStr ''Elsewhere''), (''failure'', VStr ''unsupported'')]
            (StubScorableBlock_init None)) =
     [Publish ''rescore_failure''
        [(''usage_key'', VStr ''Here''), (''failure'', VStr ''unsupported'')]]"
  by (simp add: rescore_eval stub_defs)

subsection \<open>A calculation that raises\<close>

text \<open>
  Claim C3. When the block allows rescoring and has a score, and
  \<^verbatim>\<open>calculate_score()\<close> raises an exception (any instance of \<^verbatim>\<open>Exception\<close>, which
  is what the handler catches), \<^verbatim>\<open>rescore\<close> returns \<^verbatim>\<open>False\<close> instead of raising,
  does not call \<^verbatim>\<open>set_score\<close>, leaves the block as it was, and publishes exactly one
  event: a \<^verbatim>\<open>rescore_failure\<close> tagged \<^verbatim>\<open>calculation error\<close>.
\<close>

theorem rescore_calculation_raises:
  assumes "allows_rescore cls (block w)"
    and "get_score cls (block w) = Inr (Some original_score)"
    and "calculate_score cls (block w) = Inl e"
    and "isinstance_Exception e"
  shows "case rescore py h cls only_if_higher w of (out, w') \<Rightarrow>
     out = Inr False \<and>
     set_score_calls (calls_made w w') = [] \<and>
     block w' = block w \<and>
     get_score cls (block w') = Inr (Some original_score) \<and>
     published (calls_made w w') =
       [(''rescore_failure'',
         [(''failure'', VStr ''calculation error''),
          (''usage_key'', VStr (location cls (block w)))])]"
  using assms(2) by (simp add: rescore_calculation_error [OF assms] observer_defs)

theorem rescore_calculation_raises_witness:
  "allows_rescore (StubScorableBlock\<lparr>calculate_score := \<lambda>_. Inl (OtherException ''boom'')\<rparr>)
     (block (StubScorableBlock_init (Some \<lparr>earned = 0, total = 1\<rparr>))) \<and>
   isinstance_Exception (OtherException ''boom'') \<and>
   (case rescore Python3 plain_host
           (StubScorableBlock\<lparr>calculate_score := \<lambda>_. Inl (OtherException ''boom'')\<rparr>) True
           (StubScorableBlock_init (Some \<lparr>earned = 0, total = 1\<rparr>)) of
      (out, w') \<Rightarrow>
        out = Inr False \<and>
        set_score_calls (trace w') = [] \<and>
        result (block w') = Some \<lparr>earned = 0, total = 1\<rparr> \<and>
        published (trace w') =
          [(''rescore_failure'',
            [(''failure'', VStr ''calculation error''), (''usage_key'', VStr ''Here'')])])"
  using rescore_calculation_raises
    [where cls = "StubScorableBlock\<lparr>calculate_score := \<lambda>_. Inl (OtherException ''boom'')\<rparr>"
       and w = "StubScorableBlock_init (Some \<lparr>earned = 0, total = 1\<rparr>)"
       and original_score = "\<lparr>earned = 0, total = 1\<rparr>"
       and e = "OtherException ''boom''"
       and py = Python3 and h = plain_host and only_if_higher = True]
  by (simp add: stub_defs calls_made_def split: prod.splits)

subsection \<open>Blocks that do not allow rescoring\<close>

text \<open>
  Claim C4. When \<^verbatim>\<open>allows_rescore()\<close> returns false, \<^verbatim>\<open>rescore\<close>, for either value
  of \<^verbatim>\<open>only_if_higher\<close>, publishes one \<^verbatim>\<open>rescore_failure\<close> event tagged
  \<^verbatim>\<open>unsupported\<close> and raises the error for an unsupported operation (a
  \<^verbatim>\<open>TypeError\<close> with the translated message); it calls neither
  \<^verbatim>\<open>calculate_score\<close> nor \<^verbatim>\<open>set_score\<close>, and the block is as it was.
\<close>

theorem rescore_not_supported:
  assumes "\<not> allows_rescore cls (block w)"
  shows "case rescore py h cls only_if_higher w of (out, w') \<Rightarrow>
     out = Inl (TypeError (ugettext h ''Problem does not support rescoring'')) \<and>
     published (calls_made w w') =
       [(''rescore_failure'',
         [(''failure'', VStr ''unsupported''),
          (''usage_key'', VStr (location cls (block w)))])] \<and>
     Calculate_score \<notin> set (calls_made w w') \<and>
     set_score_calls (calls_made w w') = [] \<and>
     block w' = block w"
  by (simp add: rescore_unsupported [OF assms] observer_defs)

theorem rescore_not_supported_witness:
  "\<not> allows_rescore StubScorableBlock
       \<lparr>result = Some \<lparr>earned = 0, total = 1\<rparr>, stub_allows_rescore = False\<rparr> \<and>
   (case rescore Python3 plain_host StubScorableBlock False
           \<lparr>block = \<lparr>result = Some \<lparr>earned = 0, total = 1\<rparr>, stub_allows_rescore = False\<rparr>,
            trace = []\<rparr> of
      (out, w') \<Rightarrow>
        out = Inl (TypeError ''Problem does not support rescoring'') \<and>
        published (trace w') =
          [(''rescore_failure'',
            [(''failure'', VStr ''unsupported''), (''usage_key'', VStr ''Here'')])] \<and>
        Calculate_score \<notin> set (trace w') \<and>
        set_score_calls (trace w') = [] \<and>
        result (block w') = Some \<lparr>earned = 0, total = 1\<rparr>)"
  using rescore_not_supported
    [where cls = StubScorableBlock and py = Python3 and h = plain_host
       and only_if_higher = False
       and w = "\<lparr>block = \<lparr>result = Some \<lparr>earned = 0, total = 1\<rparr>,
                           stub_allows_rescore = False\<rparr>,
                  trace = []\<rparr>"]
  by (simp add: stub_defs calls_made_def split: prod.splits)

subsection \<open>Blocks without a score\<close>

text \<open>
  Claim C5. When the block allows rescoring and \<^verbatim>\<open>get_score()\<close> returns
  \<^verbatim>\<open>None\<close>, \<^verbatim>\<open>rescore\<close>, for either value of \<^verbatim>\<open>only_if_higher\<close>, publishes one
  \<^verbatim>\<open>rescore_failure\<close> event tagged \<^verbatim>\<open>unanswered\<close> and raises the error for an
  invalid state (a \<^verbatim>\<open>ValueError\<close> with the translated message); it calls neither
  \<^verbatim>\<open>calculate_score\<close> nor \<^verbatim>\<open>set_score\<close>, and the block is as it was.
\<close>

theorem rescore_invalid_state:
  assumes "allows_rescore cls (block w)"
    and "get_score cls (block w) = Inr None"
  shows "case rescore py h cls only_if_higher w of (out, w') \<Rightarrow>
     out = Inl (ValueError
             (ugettext h ''Problem must be answered before it can be rescored.'')) \<and>
     published (calls_made w w') =
       [(''rescore_failure'',
         [(''failure'', VStr ''unanswered''),
          (''usage_key'', VStr (location cls (block w)))])] \<and>
     Calculate_score \<notin> set (calls_made w w') \<and>
     set_score_calls (calls_made w w') = [] \<and>
     block w' = block w"
  by (simp add: rescore_unanswered [OF assms] observer_defs)

theorem rescore_invalid_state_witness:
  "allows_rescore StubScorableBlock (block (StubScorableBlock_init None)) \<and>
   get_score StubScorableBlock (block (StubScorableBlock_init None)) = Inr None \<and>
   (case rescore Python3 plain_host StubScorableBlock False (StubScorableBlock_init None) of
      (out, w') \<Rightarrow>
        out = Inl (ValueError ''Problem must be answered before it can be rescored.'') \<and>
        published (trace w') =
          [(''rescore_failure'',
            [(''failure'', VStr ''unanswered''), (''usage_key'', VStr ''Here'')])] \<and>
        Calculate_score \<notin> set (trace w') \<and>
        set_score_calls (trace w') = [] \<and>
        result (block w') = None)"
  using rescore_invalid_state
    [where cls = StubScorableBlock and py = Python3 and h = plain_host
       and only_if_higher = False and w = "StubScorableBlock_init None"]
  by (simp add: stub_defs calls_made_def split: prod.splits)

subsection \<open>The grade record\<close>

text \<open>
  Claim C6. On every call of \<^verbatim>\<open>rescore\<close> that stores the new score (the call is
  unconditional, or the new score is greater than the original one), the grade record
  that is published has \<^verbatim>\<open>value\<close> equal to \<^verbatim>\<open>new_score.earned\<close> and
  \<^verbatim>\<open>max_value\<close> equal to \<^verbatim>\<open>new_score.total\<close>, where \<^verbatim>\<open>new_score\<close> is the
  score that \<^verbatim>\<open>calculate_score\<close> returned and \<^verbatim>\<open>set_score\<close> was given, and it
  carries the \<^verbatim>\<open>only_if_higher\<close> flag of the call. \<^verbatim>\<open>_publish_grade\<close> reads the
  score with \<^verbatim>\<open>get_score()\<close>; the block keeps the contract of its two accessors:
  \<^verbatim>\<open>get_score\<close> returns the score that \<^verbatim>\<open>set_score\<close> has saved.
\<close>

theorem rescore_grade_record:
  assumes "allows_rescore cls (block w)"
    and "get_score cls (block w) = Inr (Some original_score)"
    and "calculate_score cls (block w) = Inr (Some new_score)"
    and "\<not> only_if_higher \<or> lex_greater new_score original_score"
    and "set_score cls (Some new_score) (block w) = Inr b'"
    and "get_score cls b' = Inr (Some new_score)"
  shows "case rescore py h cls only_if_higher w of (out, w') \<Rightarrow>
     out = Inr True \<and>
     set_score_calls (calls_made w w') = [Some new_score] \<and>
     grade_records (calls_made w w') =
       [(''grade'',
         [(''value'', VNum (earned new_score)), (''max_value'', VNum (total new_score)),
          (''only_if_higher'', VBool only_if_higher)])]"
proof -
  from assms(4) have "\<not> only_if_higher \<or> Score_gt new_score original_score"
    by (simp add: Score_gt_lex_greater)
  from rescore_updated [OF assms(1-3) this assms(5,6)] show ?thesis
    by (simp add: observer_defs grade_dict_def)
qed

theorem rescore_grade_record_witness:
  "(lex_greater \<lparr>earned = 1.6, total = 2.0\<rparr> \<lparr>earned = 0, total = 1\<rparr> \<and>
    (case rescore Python3 plain_host StubScorableBlock True
            (StubScorableBlock_init (Some \<lparr>earned = 0, total = 1\<rparr>)) of
       (out, w') \<Rightarrow>
         out = Inr True \<and>
         set_score_calls (trace w') = [Some \<lparr>earned = 1.6, total = 2.0\<rparr>] \<and>
         grade_records (trace w') =
           [(''grade'',
             [(''value'', VNum 1.6), (''max_value'', VNum 2.0),
              (''only_if_higher'', VBool True)])])) \<and>
   (case rescore Python3 plain_host StubScorableBlock False
           (StubScorableBlock_init (Some \<lparr>earned = 2, total = 2\<rparr>)) of
      (out, w') \<Rightarrow>
        out = Inr True \<and>
        set_score_calls (trace w') = [Some \<lparr>earned = 1.6, total = 2.0\<rparr>] \<and>
        grade_records (trace w') =
          [(''grade'',
            [(''value'', VNum 1.6), (''max_value'', VNum 2.0),
             (''only_if_higher'', VBool False)])])"
  using rescore_grade_record
    [where cls = StubScorableBlock and py = Python3 and h = plain_host
       and only_if_higher = True
       and w = "StubScorableBlock_init (Some \<lparr>earned = 0, total = 1\<rparr>)"
       and original_score = "\<lparr>earned = 0, total = 1\<rparr>"
       and new_score = "\<lparr>earned = 1.6, total = 2.0\<rparr>"
       and b' = "\<lparr>result = Some \<lparr>earned = 1.6, total = 2.0\<rparr>, stub_allows_rescore = True\<rparr>"]
    rescore_grade_record
    [where cls = StubScorableBlock and py = Python3 and h = plain_host
       and only_if_higher = False
       and w = "StubScorableBlock_init (Some \<lparr>earned = 2, total = 2\<rparr>)"
       and original_score = "\<lparr>earned = 2, total = 2\<rparr>"
       and new_score = "\<lparr>earned = 1.6, total = 2.0\<rparr>"
       and b' = "\<lparr>result = Some \<lparr>earned = 1.6, total = 2.0\<rparr>, stub_allows_rescore = True\<rparr>"]
  by (simp add: stub_defs calls_made_def lex_greater_def split: prod.splits)

subsection \<open>What a call publishes\<close>

text \<open>
  Claim C7. A call of \<^verbatim>\<open>rescore\<close> that ends on one of its five terminal paths
  (the block does not allow rescoring; the block has no score; the call returns
  \<^verbatim>\<open>False\<close> after the calculation has raised; it returns \<^verbatim>\<open>False\<close> with the score
  not changed; it returns \<^verbatim>\<open>True\<close>) publishes exactly one audit event. On the paths
  that call \<^verbatim>\<open>set_score\<close>, and on no others, it also publishes exactly one grade
  record, before the audit event.
\<close>

theorem rescore_publishes:
  assumes run: "rescore py h cls only_if_higher w = (out, w')"
    and path: "\<not> allows_rescore cls (block w) \<or> get_score cls (block w) = Inr None \<or>
         (\<exists>b. out = Inr b)"
  shows "length (audit_events (calls_made w w')) = 1 \<and>
     (set_score_calls (calls_made w w') = [] \<longrightarrow> grade_records (calls_made w w') = []) \<and>
     (set_score_calls (calls_made w w') \<noteq> [] \<longrightarrow>
        (\<exists>g a. published (calls_made w w') = [g, a] \<and> is_grade_record g \<and> is_audit_event a))"

proof (cases rule: rescore_path_cases [where cls = cls and w = w
      and only_if_higher = only_if_higher])
  case unsupported
  from rescore_unsupported [OF this, where py = py and h = h
      and only_if_higher = only_if_higher] run
  show ?thesis
    by (auto simp add: observer_defs)
next
  case (get_score_raises e)
  from rescore_get_score_raises [OF this, where py = py and h = h
      and only_if_higher = only_if_higher] run path get_score_raises
  show ?thesis
    by auto
next
  case unanswered
  from rescore_unanswered [OF this, where py = py and h = h
      and only_if_higher = only_if_higher] run
  show ?thesis
    by (auto simp add: observer_defs)
next
  case (calculation_raises original_score e)
  show ?thesis
  proof (cases "isinstance_Exception e")
    case True
    from rescore_calculation_error [OF calculation_raises this, where py = py and h = h
        and only_if_higher = only_if_higher] run
    show ?thesis
      by (auto simp add: observer_defs)
  next
    case False
    from rescore_calculation_passes_through [OF calculation_raises this, where py = py
        and h = h and only_if_higher = only_if_higher] run path calculation_raises
    show ?thesis
      by auto
  qed
next
  case (new_score_None original_score)
  from rescore_new_score_None [OF this, where py = py and h = h
      and only_if_higher = only_if_higher] run path new_score_None
  show ?thesis
    by auto
next
  case (not_changed original_score new_score)
  from rescore_not_changed [OF this, where py = py and h = h] run
  show ?thesis
    by (auto simp add: observer_defs)
next
  case (set_score_raises original_score new_score e)
  from rescore_set_score_raises [OF this, where py = py and h = h] run path set_score_raises
  show ?thesis
    by auto
next
  case (publish_grade_raises original_score new_score b')
  from rescore_publish_grade_raises [OF this, where py = py and h = h] run path
    publish_grade_raises
  show ?thesis
    by auto
next
  case (updated original_score new_score b' readback)
  from rescore_updated [OF this, where py = py and h = h] run
  show ?thesis
    by (auto simp add: observer_defs)
qed

theorem rescore_publishes_witness:
  "(\<exists>b. fst (rescore Python3 plain_host StubScorableBlock False
               (StubScorableBlock_init (Some \<lparr>earned = 0, total = 1\<rparr>))) = Inr b) \<and>
   (case rescore Python3 plain_host StubScorableBlock False
           (StubScorableBlock_init (Some \<lparr>earned = 0, total = 1\<rparr>)) of
      (out, w') \<Rightarrow>
        length (audit_events (trace w')) = 1 \<and>
        set_score_calls (trace w') \<noteq> [] \<and>
        (\<exists>g a. published (trace w') = [g, a] \<and> is_grade_record g \<and> is_audit_event a)) \<and>
   get_score StubScorableBlock (block (StubScorableBlock_init None)) = Inr None \<and>
   (case rescore Python3 plain_host StubScorableBlock False (StubScorableBlock_init None) of
      (out, w') \<Rightarrow>
        length (audit_events (trace w')) = 1 \<and>
        set_score_calls (trace w') = [] \<and>
        grade_records (trace w') = [])"
proof -
  have updated:
    "rescore Python3 plain_host StubScorableBlock False
       (StubScorableBlock_init (Some \<lparr>earned = 0, total = 1\<rparr>)) =
     (Inr True,
      \<lparr>block = \<lparr>result = Some \<lparr>earned = 1.6, total = 2.0\<rparr>, stub_allows_rescore = True\<rparr>,
       trace =
         [Allows_rescore, Get_score, Calculate_score,
          Set_score (Some \<lparr>earned = 1.6, total = 2.0\<rparr>), Get_score,
          Publish ''grade''
            [(''value'', VNum 1.6), (''max_value'', VNum 2.0),
             (''only_if_higher'', VBool False)],
          Publish ''rescore_result''
            [(''result'', VStr ''score updated''),
             (''original_score'', VDict [(''earned'', VNum 0), (''total'', VNum 1)]),
             (''new_score'', VDict [(''earned'', VNum 1.6), (''total'', VNum 2.0)]),
             (''usage_key'', VStr ''Here'')]]\<rparr>)"
    by (simp add: rescore_eval stub_defs)
  have unanswered:
    "rescore Python3 plain_host StubScorableBlock False (StubScorableBlock_init None) =
     (Inl (ValueError ''Problem must be answered before it can be rescored.''),
      \<lparr>block = \<lparr>result = None, stub_allows_rescore = True\<rparr>,
       trace =
         [Allows_rescore, Get_score,
          Publish ''rescore_failure''
            [(''failure'', VStr ''unanswered''), (''usage_key'', VStr ''Here'')]]\<rparr>)"
    by (simp add: rescore_eval stub_defs)
  have no_score: "get_score StubScorableBlock (block (StubScorableBlock_init None)) = Inr None"
    by (simp add: stub_defs)
  have returned: "\<exists>b. (Inr True :: exn + bool) = Inr b"
    by blast
  from rescore_publishes [OF updated disjI2 [OF disjI2 [OF returned]]]
    rescore_publishes [OF unanswered disjI2 [OF disjI1 [OF no_score]]]
    updated unanswered no_score
  show ?thesis
    by (auto simp add: calls_made_def StubScorableBlock_init_def set_score_calls_def)
qed

subsection \<open>Rescoring unconditionally\<close>

text \<open>
  Claim C8. For a block that allows rescoring and has a score, and whose
  \<^verbatim>\<open>calculate_score()\<close> returns a score, \<^verbatim>\<open>rescore(only_if_higher=False)\<close> calls
  \<^verbatim>\<open>set_score\<close> with the new score, however the new score compares to the original
  one, and then returns \<^verbatim>\<open>True\<close> (provided that the block's \<^verbatim>\<open>set_score\<close> returns
  and that its \<^verbatim>\<open>get_score\<close> finds a score afterwards: an exception of the block
  would end the call).
\<close>

theorem rescore_always:
  assumes allowed: "allows_rescore cls (block w)"
    and orig: "get_score cls (block w) = Inr (Some original_score)"
    and new: "calculate_score cls (block w) = Inr (Some new_score)"
  shows "case rescore py h cls False w of (out, w') \<Rightarrow>
     set_score_calls (calls_made w w') = [Some new_score] \<and>
     (set_score cls (Some new_score) (block w) = Inr b' \<and>
      get_score cls b' = Inr (Some readback) \<longrightarrow>
        out = Inr True \<and> block w' = b')"
proof -
  have decision: "\<not> False \<or> Score_gt new_score original_score"
    by simp
  show ?thesis
  proof (cases "set_score cls (Some new_score) (block w)")
    case (Inl e)
    from rescore_set_score_raises [OF allowed orig new decision this, where py = py and h = h]
      Inl
    show ?thesis
      by (simp add: observer_defs)
  next
    case stored: (Inr b'')
    show ?thesis
    proof (cases "\<exists>r. get_score cls b'' = Inr (Some r)")
      case False
      then have "\<And>r. get_score cls b'' \<noteq> Inr (Some r)"
        by simp
      from rescore_publish_grade_raises
        [OF allowed orig new decision stored this, where py = py and h = h]
        stored False
      show ?thesis
        by (auto simp add: observer_defs split: prod.splits)
    next
      case True
      then obtain r where "get_score cls b'' = Inr (Some r)" ..
      from rescore_updated [OF allowed orig new decision stored this, where py = py and h = h]
        stored
      show ?thesis
        by (auto simp add: observer_defs)
    qed
  qed
qed

theorem rescore_always_witness:
  "\<not> lex_greater \<lparr>earned = 1.6, total = 2.0\<rparr> \<lparr>earned = 2, total = 2\<rparr> \<and>
   (case rescore Python3 plain_host StubScorableBlock False
           (StubScorableBlock_init (Some \<lparr>earned = 2, total = 2\<rparr>)) of
      (out, w') \<Rightarrow>
        out = Inr True \<and>
        set_score_calls (trace w') = [Some \<lparr>earned = 1.6, total = 2.0\<rparr>] \<and>
        result (block w') = Some \<lparr>earned = 1.6, total = 2.0\<rparr>)"
  using rescore_always
    [where cls = StubScorableBlock and py = Python3 and h = plain_host
       and w = "StubScorableBlock_init (Some \<lparr>earned = 2, total = 2\<rparr>)"
       and original_score = "\<lparr>earned = 2, total = 2\<rparr>"
       and new_score = "\<lparr>earned = 1.6, total = 2.0\<rparr>"
       and b' = "\<lparr>result = Some \<lparr>earned = 1.6, total = 2.0\<rparr>, stub_allows_rescore = True\<rparr>"
       and readback = "\<lparr>earned = 1.6, total = 2.0\<rparr>"]
  by (simp add: stub_defs calls_made_def lex_greater_def split: prod.splits)

subsection \<open>The caller's dictionary\<close>

text \<open>
  Claim C9. \<^verbatim>\<open>_publish_scoring_event\<close> does not change the dictionary it is given:
  the object \<open>data\<close> refers to holds the same items after the call as before, and so
  does every other dictionary that existed before the call. The merge is done in a new
  object, which is the one handed to the runtime, and it holds the payload of the event.
\<close>

theorem publish_scoring_event_keeps_data:
  assumes "data < length (heap s)"
  shows "heap (publish_scoring_event_store cls w name data s) ! data = heap s ! data \<and>
     take (length (heap s)) (heap (publish_scoring_event_store cls w name data s)) = heap s \<and>
     delivered (publish_scoring_event_store cls w name data s) =
       delivered s @ [(name, length (heap s))] \<and>
     heap (publish_scoring_event_store cls w name data s) ! length (heap s) =
       scoring_event_payload cls (heap s ! data) w"
  using assms
  by (simp add: publish_scoring_event_store_def new_dict_def update_in_place_def
      scoring_event_payload_def nth_append list_update_append)

theorem publish_scoring_event_keeps_data_witness:
  "(0::nat) < length (heap \<lparr>heap = [[(''failure'', VStr ''unsupported'')]], delivered = []\<rparr>) \<and>
   heap (publish_scoring_event_store StubScorableBlock (StubScorableBlock_init None)
           ''rescore_failure'' 0
           \<lparr>heap = [[(''failure'', VStr ''unsupported'')]], delivered = []\<rparr>) ! 0 =
     [(''failure'', VStr ''unsupported'')] \<and>
   heap (publish_scoring_event_store StubScorableBlock (StubScorableBlock_init None)
           ''rescore_failure'' 0
           \<lparr>heap = [[(''failure'', VStr ''unsupported'')]], delivered = []\<rparr>) ! 1 =
     [(''failure'', VStr ''unsupported''), (''usage_key'', VStr ''Here'')] \<and>
   delivered (publish_scoring_event_store StubScorableBlock (StubScorableBlock_init None)
           ''rescore_failure'' 0
           \<lparr>heap = [[(''failure'', VStr ''unsupported'')]], delivered = []\<rparr>) =
     [(''rescore_failure'', 1)]"
  using publish_scoring_event_keeps_data
    [where data = 0 and cls = StubScorableBlock and w = "StubScorableBlock_init None"
       and name = "''rescore_failure''"
       and s = "\<lparr>heap = [[(''failure'', VStr ''unsupported'')]], delivered = []\<rparr>"]
  by (simp add: failure_payload stub_defs)

subsection \<open>The methods that the mixin defines itself\<close>

text \<open>
  Claim C10. As the mixin defines them, \<^verbatim>\<open>get_score\<close> and \<^verbatim>\<open>set_score\<close> always
  raise \<^verbatim>\<open>NotImplementedError\<close>, whereas \<^verbatim>\<open>calculate_score\<close> returns \<^verbatim>\<open>None\<close>
  and does not raise. A block that does not override \<^verbatim>\<open>calculate_score\<close> therefore
  never reaches the handler for calculation errors in \<^verbatim>\<open>rescore\<close>: no
  \<^verbatim>\<open>rescore_failure\<close> event tagged \<^verbatim>\<open>calculation error\<close> is published. Such an
  event is published only when \<^verbatim>\<open>calculate_score\<close> has raised.
\<close>

theorem mixin_defaults:
  "get_score (ScorableXBlockMixin loc) s = Inl NotImplementedError \<and>
   set_score (ScorableXBlockMixin loc) score s = Inl NotImplementedError \<and>
   calculate_score (ScorableXBlockMixin loc) s = Inr None \<and>
   (calculate_score cls = calculate_score (ScorableXBlockMixin loc) \<longrightarrow>
      filter (is_failure_event ''calculation error'')
        (published (calls_made w (snd (rescore py h cls only_if_higher w)))) = []) \<and>
   (filter (is_failure_event ''calculation error'')
        (published (calls_made w (snd (rescore py h cls only_if_higher w)))) \<noteq> [] \<longrightarrow>
      (\<exists>e. calculate_score cls (block w) = Inl e))"
proof -
  have "filter (is_failure_event ''calculation error'')
        (published (calls_made w (snd (rescore py h cls only_if_higher w)))) = []"
    if "calculate_score cls = calculate_score (ScorableXBlockMixin loc)"
  proof -
    from that have "calculate_score cls (block w) = Inr None"
      by (simp add: ScorableXBlockMixin_def)
    then show ?thesis by (rule rescore_calculation_error_only_if_raised)
  qed
  moreover have "\<exists>e. calculate_score cls (block w) = Inl e"
    if "filter (is_failure_event ''calculation error'')
        (published (calls_made w (snd (rescore py h cls only_if_higher w)))) \<noteq> []"
  proof (cases "calculate_score cls (block w)")
    case (Inl e)
    then show ?thesis by blast
  next
    case (Inr new)
    from rescore_calculation_error_only_if_raised [OF this] that show ?thesis
      by simp
  qed
  ultimately show ?thesis
    by (simp add: ScorableXBlockMixin_def)
qed

theorem mixin_defaults_witness:
  "calculate_score (StubScorableBlock\<lparr>calculate_score := \<lambda>_. Inr None\<rparr>) =
     calculate_score (ScorableXBlockMixin (\<lambda>_. ''Here'')) \<and>
   filter (is_failure_event ''calculation error'')
     (published (trace (snd (rescore Python3 plain_host
        (StubScorableBlock\<lparr>calculate_score := \<lambda>_. Inr None\<rparr>) True
        (StubScorableBlock_init (Some \<lparr>earned = 2, total = 2\<rparr>)))))) = [] \<and>
   filter (is_failure_event ''calculation error'')
     (published (trace (snd (rescore Python3 plain_host
        (StubScorableBlock\<lparr>calculate_score := \<lambda>_. Inl (OtherException ''boom'')\<rparr>) True
        (StubScorableBlock_init (Some \<lparr>earned = 2, total = 2\<rparr>)))))) \<noteq> [] \<and>
   (\<exists>e. calculate_score (StubScorableBlock\<lparr>calculate_score := \<lambda>_. Inl (OtherException ''boom'')\<rparr>)
          (block (StubScorableBlock_init (Some \<lparr>earned = 2, total = 2\<rparr>))) = Inl e)"
proof -
  have same: "calculate_score (StubScorableBlock\<lparr>calculate_score := \<lambda>_. Inr None\<rparr>) =
     calculate_score (ScorableXBlockMixin (\<lambda>_. ''Here''))"
    by (simp add: ScorableXBlockMixin_def)
  have raised: "filter (is_failure_event ''calculation error'')
     (published (trace (snd (rescore Python3 plain_host
        (StubScorableBlock\<lparr>calculate_score := \<lambda>_. Inl (OtherException ''boom'')\<rparr>) True
        (StubScorableBlock_init (Some \<lparr>earned = 2, total = 2\<rparr>)))))) \<noteq> []"
    by (simp add: rescore_eval stub_defs observer_defs is_failure_event_def)
  from mixin_defaults
    [where cls = "StubScorableBlock\<lparr>calculate_score := \<lambda>_. Inr None\<rparr>"
       and loc = "\<lambda>_. ''Here''" and py = Python3 and h = plain_host
       and only_if_higher = True
       and w = "StubScorableBlock_init (Some \<lparr>earned = 2, total = 2\<rparr>)"]
    mixin_defaults
    [where cls = "StubScorableBlock\<lparr>calculate_score := \<lambda>_. Inl (OtherException ''boom'')\<rparr>"
       and loc = "\<lambda>_. ''Here''" and py = Python3 and h = plain_host
       and only_if_higher = True
       and w = "StubScorableBlock_init (Some \<lparr>earned = 2, total = 2\<rparr>)"]
    same raised
  show ?thesis
    by (simp add: calls_made_def StubScorableBlock_init_def)
qed

end
